theory Spec2Isabelle
  imports Main "HOL-Library.Word"
begin

section \<open>The BAI index parser of bamnostic (bai.py)\<close>

text \<open>
  Python integers are unbounded and are modelled as \<^typ>\<open>int\<close>; \<open>x >> i\<close> is
  \<^term>\<open>drop_bit i x\<close> (floor division by \<open>2 ^ i\<close>, also for negative \<open>x\<close>) and
  \<open>1 << n\<close> is \<^term>\<open>push_bit n (1::int)\<close>.  Every exception the module can raise is a
  constructor of \<open>error\<close>; a call that may raise returns \<open>error + 'a\<close>, with \<open>Inl\<close> for
  the exception.  The last constructor, \<open>Unmodelled\<close>, is no exception of Python: it
  marks the one place where what the file object does depends on the platform and is left
  open (a seek with a \<open>whence\<close> other than 0, 1, 2).
\<close>

datatype error =
    OSError
  | NameError
  | AssertionError
  | StructError
  | TypeError
  | ValueError
  | KeyError
  | Unmodelled

subsection \<open>Binning scheme: \<open>reg2bin\<close>\<close>

text \<open>
  \<^verbatim>\<open>
  left_shift = 15
  for i in range(14, 27, 3):
      if beg >> i == (end-1) >> i:
          return int(((1<<left_shift)-1)/7 + (beg >> i))
      left_shift -= 3
  else:
      return 0
  \<close>
  The module imports \<open>division\<close> from \<open>__future__\<close>, so \<open>/\<close> is the float division.
  The dividends \<open>32767, 4095, 511, 63, 7\<close> are multiples of 7, so the quotient is the
  exact float \<open>4681.0, 585.0, 73.0, 9.0, 1.0\<close>; adding the integer \<open>beg >> i\<close> and
  truncating with \<open>int\<close> is exact as long as the sum is below \<open>2 ^ 53\<close> in absolute
  value.  The model below writes the integer quotient and sum, and every statement about
  \<open>reg2bin\<close> is made for coordinates within \<open>0 .. 2 ^ 29\<close>, where the two agree.
  The loop variable \<open>i\<close> runs over \<open>14, 17, 20, 23, 26\<close> and \<open>left_shift\<close> over
  \<open>15, 12, 9, 6, 3\<close>.
\<close>

fun reg2bin_loop :: "nat list \<Rightarrow> nat \<Rightarrow> int \<Rightarrow> int \<Rightarrow> int" where
  "reg2bin_loop [] left_shift beg en = 0"
| "reg2bin_loop (i # is) left_shift beg en =
     (if drop_bit i beg = drop_bit i (en - 1)
      then (push_bit left_shift 1 - 1) div 7 + drop_bit i beg
      else reg2bin_loop is (left_shift - 3) beg en)"

definition reg2bin :: "int \<Rightarrow> int \<Rightarrow> int" where
  "reg2bin beg en = reg2bin_loop [14, 17, 20, 23, 26] 15 beg en"

subsection \<open>Binning scheme: \<open>reg2bins\<close>\<close>

text \<open>
  \<open>reg2bins\<close> contains \<open>yield\<close>, so it is a generator function: the call runs none of
  its body and returns a suspended generator holding the arguments.  The body (the
  assertion first, then the two nested loops) runs when the generator is consumed.  The
  model keeps the two moments apart: \<open>reg2bins\<close> is the call, \<open>reg2bins_body\<close> the body,
  and \<open>consume\<close> runs the body of a generator to its end.  The result of a run is an
  \<open>outcome\<close>: the list of the values yielded, in order, and the way the run ended after
  them, \<open>None\<close> when the body returned and \<open>Some e\<close> when it raised \<open>e\<close>.  So a body
  that yields values and raises afterwards has another outcome than one that raises at
  once.  The assertion is the first statement of the body of \<open>reg2bins\<close>: when it fails
  the list is empty, and when it holds the loops yield every id and the body returns.
\<close>

type_synonym 'a outcome = "'a list \<times> error option"

definition BIN_ID_STARTS :: "int list" where
  "BIN_ID_STARTS = [0, 1, 9, 73, 585, 4681]"

definition MAX_RNG :: int where
  "MAX_RNG = 2 ^ 29 - 1"

definition level_bins :: "int \<Rightarrow> int \<Rightarrow> int \<times> nat \<Rightarrow> int list" where
  "level_bins rbeg rend = (\<lambda>(start, shift).
     let i = (if rbeg > 0 then drop_bit shift rbeg else 0);
         j = (if rend < MAX_RNG then drop_bit shift rend else drop_bit shift MAX_RNG)
     in map (\<lambda>bin_id_offset. start + bin_id_offset) [i..j])"

definition reg2bins_body :: "int \<Rightarrow> int \<Rightarrow> int outcome" where
  "reg2bins_body rbeg rend =
     (if \<not> (0 \<le> rbeg \<and> rbeg \<le> rend \<and> rend \<le> MAX_RNG)
      then ([], Some AssertionError)
      else (concat (map (level_bins rbeg rend)
              (zip BIN_ID_STARTS [29, 26, 23, 20, 17, 14])), None))"

datatype bins_generator = Reg2binsGen int int

definition reg2bins :: "int \<Rightarrow> int \<Rightarrow> error + bins_generator" where
  "reg2bins rbeg rend = Inr (Reg2binsGen rbeg rend)"

fun consume :: "bins_generator \<Rightarrow> int outcome" where
  "consume (Reg2binsGen rbeg rend) = reg2bins_body rbeg rend"

text \<open>
  The geometry of the six-level scheme, written from its description and not from the
  code of \<open>reg2bin\<close>: level \<open>l\<close> (0 the coarsest, 5 the finest) has bins of
  \<open>2 ^ (29 - 3 l)\<close> positions (512 Mbp down to 16 Kbp) and its bin ids start at
  \<open>0, 1, 9, 73, 585, 4681\<close>; the bin \<open>base l + k\<close> covers the positions
  \<open>[k * size l, (k + 1) * size l)\<close>.  The ids in use are \<open>0 .. 37448\<close>.
\<close>

definition bin_level :: "int \<Rightarrow> nat" where
  "bin_level b = (if b < 1 then 0 else if b < 9 then 1 else if b < 73 then 2
                  else if b < 585 then 3 else if b < 4681 then 4 else 5)"

definition level_base :: "nat \<Rightarrow> int" where
  "level_base l = [0, 1, 9, 73, 585, 4681] ! l"

definition level_size :: "nat \<Rightarrow> int" where
  "level_size l = 2 ^ (29 - 3 * l)"

definition is_bin :: "int \<Rightarrow> bool" where
  "is_bin b = (0 \<le> b \<and> b < 4681 + 2 ^ 15)"

definition bin_lo :: "int \<Rightarrow> int" where
  "bin_lo b = (b - level_base (bin_level b)) * level_size (bin_level b)"

definition bin_hi :: "int \<Rightarrow> int" where
  "bin_hi b = bin_lo b + level_size (bin_level b)"

definition bin_contains :: "int \<Rightarrow> int \<Rightarrow> int \<Rightarrow> bool" where
  "bin_contains b beg en = (bin_lo b \<le> beg \<and> en \<le> bin_hi b)"

definition same_window :: "nat \<Rightarrow> int \<Rightarrow> int \<Rightarrow> bool" where
  "same_window l beg en = (beg div level_size l = (en - 1) div level_size l)"

subsection \<open>The file object and the decoding of binary records\<close>

text \<open>
  The index file is opened in mode \<open>'rb'\<close>: a byte string, the position of the file
  head, and the largest position the file system lets the head take (\<open>maxbytes\<close>, below
  \<open>2 ^ 63\<close>).  \<open>read(n)\<close> returns the bytes from the head, at most \<open>n\<close> and fewer at
  the end of the file, and advances the head by what it returned.
  \<open>seek(offset, whence)\<close> with \<open>whence\<close> 0, 1 or 2 raises \<open>ValueError\<close> for an
  offset that does not fit the signed 64-bit offset type; otherwise it moves the head,
  also beyond the end of the file, and raises \<open>OSError\<close> for a position below 0 or
  above \<open>maxbytes\<close>.  What it does for another \<open>whence\<close> differs between platforms and
  is left open.  The module itself calls it with \<open>whence\<close> 0 and 1 only.
\<close>

type_synonym byte = "8 word"

record fileobj =
  content :: "byte list"
  position :: nat
  maxbytes :: nat

fun bind_err :: "error + 'a \<Rightarrow> ('a \<Rightarrow> error + 'b) \<Rightarrow> error + 'b" where
  "bind_err (Inl e) f = Inl e"
| "bind_err (Inr x) f = f x"

definition io_read :: "nat \<Rightarrow> fileobj \<Rightarrow> byte list \<times> fileobj" where
  "io_read n f =
     (let bs = take n (drop (position f) (content f))
      in (bs, f\<lparr>position := position f + length bs\<rparr>))"

definition io_seek :: "int \<Rightarrow> int \<Rightarrow> fileobj \<Rightarrow> error + fileobj" where
  "io_seek offset whence f =
     (if whence \<noteq> 0 \<and> whence \<noteq> 1 \<and> whence \<noteq> 2 then Inl Unmodelled
      else if offset < - (2 ^ 63) \<or> 2 ^ 63 \<le> offset then Inl ValueError
      else let origin = (if whence = 0 then 0
                         else if whence = 1 then int (position f)
                         else int (length (content f)));
               target = origin + offset
           in if target < 0 \<or> int (maxbytes f) < target then Inl OSError
              else Inr (f\<lparr>position := nat target\<rparr>))"

definition io_tell :: "fileobj \<Rightarrow> nat" where
  "io_tell f = position f"

text \<open>
  Modelled from the spec: the function \<open>unpack(fmt, stream)\<close> comes from
  \<open>bamnostic.utils\<close>, which is not among the sources.  The specification describes it
  as the supplied utility that decodes fixed-width little-endian integers and fixed-size
  byte sequences from a stream, and counts a truncated record as an error.  It is
  modelled as: read as many bytes as the format takes; when fewer are left, raise
  (\<open>StructError\<close>, the \<open>struct.error\<close> of Python); otherwise decode the fields,
  \<open>l\<close> and \<open>i\<close> as signed 32-bit, \<open>I\<close> as unsigned 32-bit, \<open>Q\<close> as unsigned 64-bit,
  \<open>4s\<close> as four bytes.  One decoder is written for each format string the module uses.
\<close>

fun le_uint :: "byte list \<Rightarrow> int" where
  "le_uint [] = 0"
| "le_uint (b # bs) = uint b + 256 * le_uint bs"

definition le_sint32 :: "byte list \<Rightarrow> int" where
  "le_sint32 bs = (let u = le_uint bs in if u < 2 ^ 31 then u else u - 2 ^ 32)"

definition read_exact :: "nat \<Rightarrow> fileobj \<Rightarrow> error + (byte list \<times> fileobj)" where
  \<comment> \<open>Modelled from the spec: the bytes one call of \<open>unpack\<close> takes from the stream.\<close>
  "read_exact n f =
     (case io_read n f of (bs, f') \<Rightarrow> if length bs < n then Inl StructError else Inr (bs, f'))"

definition unpack_l :: "fileobj \<Rightarrow> error + (int \<times> fileobj)" where
  \<comment> \<open>Modelled from the spec: \<open>unpack('<l', stream)\<close>.\<close>
  "unpack_l f = bind_err (read_exact 4 f) (\<lambda>(bs, f'). Inr (le_sint32 bs, f'))"

definition unpack_Q :: "fileobj \<Rightarrow> error + (int \<times> fileobj)" where
  \<comment> \<open>Modelled from the spec: \<open>unpack('<Q', stream)\<close>.\<close>
  "unpack_Q f = bind_err (read_exact 8 f) (\<lambda>(bs, f'). Inr (le_uint bs, f'))"

definition unpack_2Q :: "fileobj \<Rightarrow> error + ((int \<times> int) \<times> fileobj)" where
  \<comment> \<open>Modelled from the spec: \<open>unpack('<2Q', stream)\<close>.\<close>
  "unpack_2Q f = bind_err (read_exact 16 f) (\<lambda>(bs, f').
     Inr ((le_uint (take 8 bs), le_uint (drop 8 bs)), f'))"

definition unpack_4Q :: "fileobj \<Rightarrow> error + ((int \<times> int \<times> int \<times> int) \<times> fileobj)" where
  \<comment> \<open>Modelled from the spec: \<open>unpack('<4Q', stream)\<close>.\<close>
  "unpack_4Q f = bind_err (read_exact 32 f) (\<lambda>(bs, f').
     Inr ((le_uint (take 8 bs), le_uint (take 8 (drop 8 bs)),
           le_uint (take 8 (drop 16 bs)), le_uint (drop 24 bs)), f'))"

definition unpack_Ii :: "fileobj \<Rightarrow> error + ((int \<times> int) \<times> fileobj)" where
  \<comment> \<open>Modelled from the spec: \<open>unpack('<Ii', stream)\<close>.\<close>
  "unpack_Ii f = bind_err (read_exact 8 f) (\<lambda>(bs, f').
     Inr ((le_uint (take 4 bs), le_sint32 (drop 4 bs)), f'))"

subsection \<open>The index object\<close>

text \<open>
  The named tuples of the module are datatypes with the fields as selectors.  A
  \<open>Bai\<close> object is a record of the attributes the methods below read or write.  The
  key of \<open>unmapped\<close> is the \<open>ref_id\<close> argument, which may be \<open>None\<close>.  The two fields of
  \<open>Ref\<close> hold what \<open>get_ref\<close> puts there, a dictionary and a list in the full mode.
  The selectors of \<open>RefIdx\<close> carry the prefix \<open>idx_\<close>, since \<open>query\<close> has local
  variables \<open>start_offset\<close> and \<open>end_offset\<close> of its own.
\<close>

datatype chunk = Chunk (voffset_beg: int) (voffset_end: int)

datatype unmapped_stats =
  Unmapped (unmmaped_beg: int) (unmapped_end: int) (n_mapped: int) (n_unmapped: int)

datatype ref_idx = RefIdx (idx_start_offset: nat) (idx_end_offset: nat) (idx_n_bins: int)

datatype ref_block =
  Ref (bins: "(int \<rightharpoonup> chunk list) option") (intervals: "int list option")

datatype ref_result = IsRefIdx ref_idx | IsRef ref_block

record bai =
  io :: fileobj
  n_refs :: int
  unmapped :: "int option \<rightharpoonup> unmapped_stats"
  ref_indices :: "int \<rightharpoonup> ref_idx"
  last_pos :: nat

definition UNMAP_BIN :: int where
  "UNMAP_BIN = 37450"

subsection \<open>\<open>get_chunks\<close> and \<open>get_ints\<close>\<close>

text \<open>
  Both are list comprehensions over \<open>range(n)\<close>, which is empty for \<open>n \<le> 0\<close>; each
  element is one \<open>unpack\<close> from the stream.  They touch only the file object.
\<close>

fun get_chunks_loop :: "nat \<Rightarrow> fileobj \<Rightarrow> error + (chunk list \<times> fileobj)" where
  "get_chunks_loop 0 f = Inr ([], f)"
| "get_chunks_loop (Suc n) f =
     bind_err (unpack_2Q f) (\<lambda>((b, e), f').
     bind_err (get_chunks_loop n f') (\<lambda>(chunks, f'').
     Inr (Chunk b e # chunks, f'')))"

definition get_chunks :: "int \<Rightarrow> fileobj \<Rightarrow> error + (chunk list \<times> fileobj)" where
  "get_chunks n_chunks f = get_chunks_loop (nat n_chunks) f"


fun get_ints_loop :: "nat \<Rightarrow> fileobj \<Rightarrow> error + (int list \<times> fileobj)" where
  "get_ints_loop 0 f = Inr ([], f)"
| "get_ints_loop (Suc n) f =
     bind_err (unpack_Q f) (\<lambda>(v, f').
     bind_err (get_ints_loop n f') (\<lambda>(ints, f'').
     Inr (v # ints, f'')))"

definition get_ints :: "int \<Rightarrow> fileobj \<Rightarrow> error + (int list \<times> fileobj)" where
  "get_ints n_int f = get_ints_loop (nat n_int) f"

subsection \<open>\<open>get_bins\<close>\<close>

text \<open>
  \<^verbatim>\<open>
  bins = None if idx else {}
  for b in range(n_bins):
      bin_id, n_chunks = unpack('<Ii', self._io)
      if idx:
          if bin_id == self._UNMAP_BIN:
              assert n_chunks == 2, ...
              unmapped = Unmapped(*unpack('<4Q', self._io))
              self.unmapped[ref_id] = unmapped
          else:
              if not n_chunks == 0:
                  self._io.seek(struct.calcsize('<2Q') * n_chunks, 1)
      else:
          chunks = self.get_chunks(n_chunks)
          bins[bin_id] = chunks
  else:
      return bins
  \<close>
  \<open>get_bins_loop k\<close> is the loop with \<open>k\<close> iterations left; it carries the value
  of the variable \<open>bins\<close> (the argument \<open>dict\<close>: \<open>None\<close> in the index-only mode, a
  dictionary in the full mode) and the object.  The test on
  the reserved id and the assertion stand under \<open>if idx\<close>: the full mode (\<open>idx\<close>
  false) decodes every bin, whatever its id, with \<open>get_chunks\<close> and stores it in
  \<open>bins\<close>.  (An item assignment to \<open>None\<close> would raise \<open>TypeError\<close>; \<open>get_bins\<close>
  starts the full mode with a dictionary, so this does not happen.)
\<close>

fun get_bins_loop ::
  "nat \<Rightarrow> int option \<Rightarrow> bool \<Rightarrow> (int \<rightharpoonup> chunk list) option \<Rightarrow> bai
     \<Rightarrow> error + ((int \<rightharpoonup> chunk list) option \<times> bai)" where
  "get_bins_loop 0 ref_id idx dict s = Inr (dict, s)"
| "get_bins_loop (Suc k) ref_id idx dict s =
     bind_err (unpack_Ii (io s)) (\<lambda>((bin_id, n_chunks), f).
       if idx then
         if bin_id = UNMAP_BIN then
           if n_chunks \<noteq> 2 then Inl AssertionError
           else bind_err (unpack_4Q f) (\<lambda>((a, b, c, d), f').
             get_bins_loop k ref_id idx dict
               (s\<lparr>io := f', unmapped := (unmapped s)(ref_id \<mapsto> Unmapped a b c d)\<rparr>))
         else if n_chunks \<noteq> 0 then
           bind_err (io_seek (16 * n_chunks) 1 f) (\<lambda>f'.
             get_bins_loop k ref_id idx dict (s\<lparr>io := f'\<rparr>))
         else get_bins_loop k ref_id idx dict (s\<lparr>io := f\<rparr>)
       else
         bind_err (get_chunks n_chunks f) (\<lambda>(chunks, f').
           case dict of
             None \<Rightarrow> Inl TypeError
           | Some m \<Rightarrow>
               get_bins_loop k ref_id idx (Some (m(bin_id \<mapsto> chunks))) (s\<lparr>io := f'\<rparr>)))"

definition get_bins ::
  "int \<Rightarrow> int option \<Rightarrow> bool \<Rightarrow> bai \<Rightarrow> error + ((int \<rightharpoonup> chunk list) option \<times> bai)" where
  "get_bins n ref_id idx s =
     get_bins_loop (nat n) ref_id idx (if idx then None else Some Map.empty) s"

subsection \<open>\<open>get_ref\<close>\<close>

text \<open>
  \<^verbatim>\<open>
  if ref_id is not None and not idx:
      ref_start, _, _ = self.ref_indices[ref_id]
      self._io.seek(ref_start)
  ref_start = self._io.tell()
  if not idx:
      assert ref_start == self.ref_indices[ref_id].start_offset, 'ref not properly aligned'
  n_bins = unpack('<l', self._io)
  bins = self.get_bins(n_bins, ref_id, idx)
  n_int = unpack('<l', self._io)
  if idx:
      self._io.seek(struct.calcsize('<Q') * n_int, 1)
  ints = None if idx else self.get_ints(n_int)
  self._last_pos = self._io.tell()
  if idx:
      return RefIdx(ref_start, self._last_pos, n_bins)
  else:
      return Ref(bins, ints)
  \<close>
  A missing key of \<open>ref_indices\<close> (also the key \<open>None\<close>) raises \<open>KeyError\<close>.  The
  method is wrapped in \<open>lru_cache(4)\<close>; the model is the wrapped method, that is what
  runs when the cache has no entry for the arguments.
\<close>

definition get_ref :: "int option \<Rightarrow> bool \<Rightarrow> bai \<Rightarrow> error + (ref_result \<times> bai)" where
  "get_ref ref_id idx s =
     bind_err
       (case ref_id of
          None \<Rightarrow> Inr s
        | Some r \<Rightarrow>
            if idx then Inr s
            else (case ref_indices s r of
                    None \<Rightarrow> Inl KeyError
                  | Some entry \<Rightarrow>
                      bind_err (io_seek (int (idx_start_offset entry)) 0 (io s))
                        (\<lambda>f. Inr (s\<lparr>io := f\<rparr>)))) (\<lambda>s1.
     let ref_start = io_tell (io s1) in
     bind_err
       (if idx then Inr ()
        else (case ref_id of
                None \<Rightarrow> Inl KeyError
              | Some r \<Rightarrow>
                  (case ref_indices s1 r of
                     None \<Rightarrow> Inl KeyError
                   | Some entry \<Rightarrow>
                       if ref_start = idx_start_offset entry then Inr ()
                       else Inl AssertionError))) (\<lambda>_.
     bind_err (unpack_l (io s1)) (\<lambda>(n, f2).
     bind_err (get_bins n ref_id idx (s1\<lparr>io := f2\<rparr>)) (\<lambda>(dict, s3).
     bind_err (unpack_l (io s3)) (\<lambda>(n_int, f4).
     bind_err (if idx then io_seek (8 * n_int) 1 f4 else Inr f4) (\<lambda>f5.
     bind_err (if idx then Inr (None, f5)
               else bind_err (get_ints n_int f5) (\<lambda>(ints, f6). Inr (Some ints, f6)))
       (\<lambda>(ints, f6).
     let s7 = s3\<lparr>io := f6, last_pos := io_tell f6\<rparr> in
     if idx then Inr (IsRefIdx (RefIdx ref_start (last_pos s7) n), s7)
     else Inr (IsRef (Ref dict ints), s7))))))))"

subsection \<open>The constructor\<close>

text \<open>
  \<^verbatim>\<open>
  if os.path.isfile(filename):
      self._io = open(filename, 'rb')
  else:
      raise OSError(...)
  self._io = open(filename, 'rb')
  self._LINEAR_INDEX_WINDOW = 16384
  self._UNMAP_BIN = 37450
  self.magic, self.n_refs = unpack("<4sl", serf._io)
  assert self.magic == b'BAI\x01', 'Wrong BAI magic header'
  ...
  \<close>
  The argument of the call of \<open>unpack\<close> names \<open>serf\<close>.  No assignment, parameter or
  import of the module binds that name (the parameter is \<open>self\<close>), so evaluating it
  raises \<open>NameError\<close>, before a byte of the file is read; the statements after it
  (the check of the magic, the pass over the references, the trailer) never run.  The
  file system is a map from paths to the contents of the regular files.
\<close>

definition Bai_init :: "(string \<rightharpoonup> byte list) \<Rightarrow> string \<Rightarrow> error + bai" where
  "Bai_init fs filename =
     (case fs filename of
        None \<Rightarrow> Inl OSError
      | Some bytes \<Rightarrow> Inl NameError)"

subsection \<open>\<open>seek\<close>\<close>

text \<open>
  \<^verbatim>\<open>
  if isinstance(offset, (int, None)):
      if offset is None:
          raise ValueError('No offset provided')
      else:
          self._io.seek(offset, whence)
          return self._io.tell()
  else:
      raise ValueError('offset must be an integer or None')
  \<close>
  The argument \<open>offset\<close> may be any Python object; \<open>pyobj\<close> has the three kinds that
  matter here.  \<open>isinstance\<close> with a tuple tries the members in order and stops at the
  first of which the object is an instance.  The first member is \<open>int\<close>.  The second
  is the object \<open>None\<close>, which is not a type: when \<open>isinstance\<close> reaches it, that is
  whenever \<open>offset\<close> is not an integer, it raises \<open>TypeError\<close>.
\<close>

datatype pyobj = PyNone | PyInt int | PyStr string

definition isinstance_int_None :: "pyobj \<Rightarrow> error + bool" where
  "isinstance_int_None v = (case v of PyInt n \<Rightarrow> Inr True | _ \<Rightarrow> Inl TypeError)"

definition seek :: "pyobj \<Rightarrow> int \<Rightarrow> bai \<Rightarrow> error + (nat \<times> bai)" where
  "seek offset whence s =
     bind_err (isinstance_int_None offset) (\<lambda>is_inst.
       if is_inst then
         (case offset of
            PyNone \<Rightarrow> Inl ValueError
          | PyInt n \<Rightarrow>
              bind_err (io_seek n whence (io s)) (\<lambda>f. Inr (io_tell f, s\<lparr>io := f\<rparr>))
          | PyStr x \<Rightarrow> Inl TypeError)
       else Inl ValueError)"

subsection \<open>\<open>query\<close>\<close>

text \<open>
  \<^verbatim>\<open>
  self.current_ref = self.get_ref(ref_id)
  start_offset = self.current_ref['intervals'][start // self.LINEAR_INDEX_WINDOW]
  try:
      end_offset = self.current_ref['intervals'][ceildiv(stop, self._LINEAR_INDEX_WINDOW)]
  except IndexError:
      end_offset = self.current_ref['intervals'][-1] + 1
  current_start = None
  current_end = None
  for binID in reg2bins(start, stop):
      ...
              yield (current_start, current_end)
      ...
  else:
      yield (current_start, current_end)
  \<close>
  \<open>query\<close> is a generator function as well: the call returns a suspended generator and
  the body runs when it is consumed, on the index object as it is then.  A pair it yields
  is a \<open>run\<close>, two values that are \<open>None\<close> or an integer.

  The first statement of the body calls \<open>get_ref\<close> in the full mode; what \<open>get_ref\<close>
  raises leaves the body.  When it returns, the value is the named tuple \<open>Ref\<close>.  The
  second statement evaluates \<open>self.current_ref['intervals']\<close> first: a named tuple is a
  tuple, and subscripting a tuple with a string raises \<open>TypeError\<close>.  This is before the
  attribute \<open>LINEAR_INDEX_WINDOW\<close> is read (the constructor sets
  \<open>_LINEAR_INDEX_WINDOW\<close>), before \<open>reg2bins\<close> is called and before the first
  \<open>yield\<close>; the statements after it never run.  (A value that \<open>get_ref\<close> returns from
  its cache is a \<open>Ref\<close> too, so the second statement raises all the same.)
\<close>

type_synonym run = "int option \<times> int option"

datatype query_generator = QueryGen int int int


fun consume_query :: "query_generator \<Rightarrow> bai \<Rightarrow> run outcome" where
  "consume_query (QueryGen ref_id start stop) s =
     (case get_ref (Some ref_id) False s of
        Inl e \<Rightarrow> ([], Some e)
      | Inr (current_ref, s') \<Rightarrow> ([], Some TypeError))"

subsection \<open>Index files used as concrete inputs\<close>

text \<open>
  Every file starts with the magic \<open>BAI\1\<close> and \<open>n_ref = 1\<close> (8 bytes); the block of
  reference 0 starts at offset 8 and its first bin record at offset 12.
  \<^item> \<open>minimal_index\<close>: \<open>n_bin = 0\<close>, \<open>n_intv = 0\<close>.
  \<^item> \<open>reserved_bin_index\<close>: one bin, id 37450 with \<open>n_chunk = 2\<close> and the four values
    1, 2, 3, 4; \<open>n_intv = 0\<close>.
  \<^item> \<open>one_chunk_reserved_index\<close>: one bin, id 37450 with \<open>n_chunk = 1\<close> and the chunk
    (1, 2); \<open>n_intv = 0\<close>.
  \<^item> \<open>two_bins_index\<close>: bin 4681 with the chunk (5, 6), then bin 37450 with
    \<open>n_chunk = 2\<close> and the values 1, 2, 3, 4; \<open>n_intv = 0\<close>.
  \<^item> \<open>adjacent_chunks_index\<close>: bin 4681 with the chunks (16, 32) and (32, 48), and
    one linear interval, 16.
  \<open>file_at\<close> is the open file over such a byte string with the head at a position (on a
  file system that takes positions up to \<open>2 ^ 44\<close>), and \<open>bai_at\<close> an index object
  over it.
\<close>

definition minimal_index :: "byte list" where
  "minimal_index =
     [66, 65, 73, 1,  1, 0, 0, 0,
      0, 0, 0, 0,
      0, 0, 0, 0]"

definition reserved_bin_index :: "byte list" where
  "reserved_bin_index =
     [66, 65, 73, 1,  1, 0, 0, 0,
      1, 0, 0, 0,
      74, 146, 0, 0,  2, 0, 0, 0,
      1, 0, 0, 0, 0, 0, 0, 0,  2, 0, 0, 0, 0, 0, 0, 0,
      3, 0, 0, 0, 0, 0, 0, 0,  4, 0, 0, 0, 0, 0, 0, 0,
      0, 0, 0, 0]"

definition one_chunk_reserved_index :: "byte list" where
  "one_chunk_reserved_index =
     [66, 65, 73, 1,  1, 0, 0, 0,
      1, 0, 0, 0,
      74, 146, 0, 0,  1, 0, 0, 0,
      1, 0, 0, 0, 0, 0, 0, 0,  2, 0, 0, 0, 0, 0, 0, 0,
      0, 0, 0, 0]"


definition adjacent_chunks_index :: "byte list" where
  "adjacent_chunks_index =
     [66, 65, 73, 1,  1, 0, 0, 0,
      1, 0, 0, 0,
      73, 18, 0, 0,  2, 0, 0, 0,
      16, 0, 0, 0, 0, 0, 0, 0,  32, 0, 0, 0, 0, 0, 0, 0,
      32, 0, 0, 0, 0, 0, 0, 0,  48, 0, 0, 0, 0, 0, 0, 0,
      1, 0, 0, 0,
      16, 0, 0, 0, 0, 0, 0, 0]"

definition file_at :: "byte list \<Rightarrow> nat \<Rightarrow> fileobj" where
  "file_at bytes pos = \<lparr>content = bytes, position = pos, maxbytes = 2 ^ 44\<rparr>"

definition bai_at ::
  "byte list \<Rightarrow> nat \<Rightarrow> (int option \<rightharpoonup> unmapped_stats) \<Rightarrow> (int \<rightharpoonup> ref_idx) \<Rightarrow> bai" where
  "bai_at bytes pos stats catalog =
     \<lparr>io = file_at bytes pos, n_refs = 1, unmapped = stats,
      ref_indices = catalog, last_pos = pos\<rparr>"

section \<open>Properties of the binning scheme\<close>

lemma window_unique:
  fixes k :: int
  assumes "0 < m" "k * m \<le> x" "x < (k + 1) * m"
  shows "x div m = k"
proof -
  have r: "0 \<le> x - k * m" "x - k * m < m" using assms by (simp_all add: algebra_simps)
  have "x div m = (x - k * m + k * m) div m" by simp
  also have "\<dots> = (x - k * m) div m + k" using assms(1) by (simp only: div_mult_self1 [of m "x - k * m" k] div_mult_self3 div_mult_self4 div_mult_self2 add.commute mult.commute) 
  also have "\<dots> = k" using r by simp
  finally show ?thesis .
qed

lemma window_bounds:
  fixes x :: int
  assumes "0 < m"
  shows "(x div m) * m \<le> x" and "x < (x div m + 1) * m"
proof -
  have e: "(x div m) * m + x mod m = x" by simp
  have d: "(x div m + 1) * m = (x div m) * m + m" by (simp add: algebra_simps)
  have r: "0 \<le> x mod m" "x mod m < m" using assms by simp_all
  show "(x div m) * m \<le> x" using e r by linarith
  show "x < (x div m + 1) * m" using e r d by linarith
qed


lemma level_size_pos: "0 < level_size l"
  by (simp add: level_size_def)

lemma window_fits:
  assumes "same_window l beg en"
  shows "(beg div level_size l) * level_size l \<le> beg"
    and "en \<le> (beg div level_size l + 1) * level_size l"
proof -
  show "(beg div level_size l) * level_size l \<le> beg"
    by (rule window_bounds(1) [OF level_size_pos])
  have "en - 1 < ((en - 1) div level_size l + 1) * level_size l"
    by (rule window_bounds(2) [OF level_size_pos])
  then show "en \<le> (beg div level_size l + 1) * level_size l"
    using assms by (simp add: same_window_def)
qed

lemma fits_window:
  assumes "k * level_size l \<le> beg" "beg < en" "en \<le> (k + 1) * level_size l"
  shows "beg div level_size l = k" and "same_window l beg en"
proof -
  show b: "beg div level_size l = k"
    using assms by (intro window_unique [OF level_size_pos]) simp_all
  have "(en - 1) div level_size l = k"
    using assms by (intro window_unique [OF level_size_pos]) simp_all
  with b show "same_window l beg en" by (simp add: same_window_def)
qed

lemma bin_level_le5: "bin_level b \<le> 5"
  by (simp add: bin_level_def)

lemma bin_level_base:
  assumes "l \<le> 5" "0 \<le> k" "k < 2 ^ (3 * l)"
  shows "bin_level (level_base l + k) = l" and "is_bin (level_base l + k)"
proof -
  from assms(1) have "l = 0 \<or> l = 1 \<or> l = 2 \<or> l = 3 \<or> l = 4 \<or> l = 5" by arith
  then show "bin_level (level_base l + k) = l" and "is_bin (level_base l + k)"
    using assms(2,3) by (auto simp: level_base_def bin_level_def is_bin_def)
qed

lemma window_index_bound:
  assumes "0 \<le> beg" "beg < 2 ^ 29" "l \<le> 5"
  shows "0 \<le> beg div level_size l" and "beg div level_size l < 2 ^ (3 * l)"
proof -
  show "0 \<le> beg div level_size l" using assms(1) level_size_pos [of l] by (simp add: pos_imp_zdiv_nonneg_iff)
  have e: "(2::int) ^ 29 = 2 ^ (3 * l) * level_size l"
    using assms(3) by (simp add: level_size_def flip: power_add)
  have lt: "beg < 2 ^ (3 * l) * level_size l" using e assms(2) by simp
  show "beg div level_size l < 2 ^ (3 * l)"
  proof (rule ccontr)
    assume "\<not> beg div level_size l < 2 ^ (3 * l)"
    then have "2 ^ (3 * l) * level_size l \<le> (beg div level_size l) * level_size l"
      using level_size_pos [of l] by (intro mult_right_mono) simp_all
    also have "\<dots> \<le> beg" by (rule window_bounds(1) [OF level_size_pos])
    finally show False using lt by simp
  qed
qed

lemma reg2bin_drop_bit:
  "reg2bin beg en =
    (if drop_bit 14 beg = drop_bit 14 (en - 1) then 4681 + drop_bit 14 beg
     else if drop_bit 17 beg = drop_bit 17 (en - 1) then 585 + drop_bit 17 beg
     else if drop_bit 20 beg = drop_bit 20 (en - 1) then 73 + drop_bit 20 beg
     else if drop_bit 23 beg = drop_bit 23 (en - 1) then 9 + drop_bit 23 beg
     else if drop_bit 26 beg = drop_bit 26 (en - 1) then 1 + drop_bit 26 beg
     else 0)"
  by (simp add: reg2bin_def)

lemma reg2bin_unfold:
  "reg2bin beg en =
    (if beg div 2 ^ 14 = (en - 1) div 2 ^ 14 then 4681 + beg div 2 ^ 14
     else if beg div 2 ^ 17 = (en - 1) div 2 ^ 17 then 585 + beg div 2 ^ 17
     else if beg div 2 ^ 20 = (en - 1) div 2 ^ 20 then 73 + beg div 2 ^ 20
     else if beg div 2 ^ 23 = (en - 1) div 2 ^ 23 then 9 + beg div 2 ^ 23
     else if beg div 2 ^ 26 = (en - 1) div 2 ^ 26 then 1 + beg div 2 ^ 26
     else 0)"
  unfolding reg2bin_drop_bit drop_bit_eq_div by (rule refl)

lemma level_size_values: "level_size 0 = 2 ^ 29" "level_size 1 = 2 ^ 26" "level_size 2 = 2 ^ 23"
  "level_size 3 = 2 ^ 20" "level_size 4 = 2 ^ 17" "level_size 5 = 2 ^ 14"
  by (simp_all add: level_size_def)

lemma level_base_values: "level_base 0 = 0" "level_base 1 = 1" "level_base 2 = 9"
  "level_base 3 = 73" "level_base 4 = 585" "level_base 5 = 4681"
  by (simp_all add: level_base_def)

lemma reg2bin_first_match:
  assumes "0 \<le> beg" "beg < en" "en \<le> 2 ^ 29"
  shows "\<exists>l\<le>5. reg2bin beg en = level_base l + beg div level_size l
           \<and> same_window l beg en \<and> (\<forall>l'\<le>5. l < l' \<longrightarrow> \<not> same_window l' beg en)"
proof -
  have z: "beg div 2 ^ 29 = 0" "(en - 1) div 2 ^ 29 = 0" using assms by simp_all
  have z0: "level_base 0 + beg div level_size 0 = 0" unfolding level_size_values level_base_values using z by simp
  have five: "\<And>P. (\<forall>l'\<le>5::nat. P l') = (P 0 \<and> P 1 \<and> P 2 \<and> P 3 \<and> P 4 \<and> P 5)"
  proof -
    fix P :: "nat \<Rightarrow> bool"
    have "\<And>l'::nat. l' \<le> 5 \<longleftrightarrow> l' = 0 \<or> l' = 1 \<or> l' = 2 \<or> l' = 3 \<or> l' = 4 \<or> l' = 5" by arith
    then show "(\<forall>l'\<le>5::nat. P l') = (P 0 \<and> P 1 \<and> P 2 \<and> P 3 \<and> P 4 \<and> P 5)" by auto
  qed
  have r: "reg2bin beg en =
    (if same_window 5 beg en then level_base 5 + beg div level_size 5
     else if same_window 4 beg en then level_base 4 + beg div level_size 4
     else if same_window 3 beg en then level_base 3 + beg div level_size 3
     else if same_window 2 beg en then level_base 2 + beg div level_size 2
     else if same_window 1 beg en then level_base 1 + beg div level_size 1
     else 0)"
    unfolding same_window_def level_size_values level_base_values by (rule reg2bin_unfold)
  have w0: "same_window 0 beg en" using z by (simp add: same_window_def level_size_def)
  consider (5) "same_window 5 beg en"
    | (4) "\<not> same_window 5 beg en" "same_window 4 beg en"
    | (3) "\<not> same_window 5 beg en" "\<not> same_window 4 beg en" "same_window 3 beg en"
    | (2) "\<not> same_window 5 beg en" "\<not> same_window 4 beg en" "\<not> same_window 3 beg en"
          "same_window 2 beg en"
    | (1) "\<not> same_window 5 beg en" "\<not> same_window 4 beg en" "\<not> same_window 3 beg en"
          "\<not> same_window 2 beg en" "same_window 1 beg en"
    | (0) "\<not> same_window 5 beg en" "\<not> same_window 4 beg en" "\<not> same_window 3 beg en"
          "\<not> same_window 2 beg en" "\<not> same_window 1 beg en"
    by blast
  then show ?thesis
  proof cases
    case 5 then show ?thesis using r by (intro exI [of _ 5]) (simp add: five)
  next
    case 4 then show ?thesis using r by (intro exI [of _ 4]) (simp add: five)
  next
    case 3 then show ?thesis using r by (intro exI [of _ 3]) (simp add: five)
  next
    case 2 then show ?thesis using r by (intro exI [of _ 2]) (simp add: five)
  next
    case 1 then show ?thesis using r by (intro exI [of _ 1]) (simp add: five)
  next
    case 0 then show ?thesis using r w0 z0 by (intro exI [of _ 0]) (simp add: five)
  qed
qed

lemma contained_window:
  assumes "is_bin b" "bin_contains b beg en" "beg < en"
  shows "same_window (bin_level b) beg en"
    and "b = level_base (bin_level b) + beg div level_size (bin_level b)"
proof -
  let ?l = "bin_level b"
  have lo: "(b - level_base ?l) * level_size ?l \<le> beg"
    using assms(2) by (simp add: bin_contains_def bin_lo_def)
  have hi: "en \<le> (b - level_base ?l + 1) * level_size ?l"
    using assms(2) by (simp add: bin_contains_def bin_hi_def bin_lo_def algebra_simps)
  show "same_window ?l beg en" by (rule fits_window(2) [OF lo assms(3) hi])
  have "beg div level_size ?l = b - level_base ?l" by (rule fits_window(1) [OF lo assms(3) hi])
  then show "b = level_base ?l + beg div level_size ?l" by simp
qed


lemma drop_bit_mono_int: "(a::int) \<le> b \<Longrightarrow> drop_bit n a \<le> drop_bit n b"
  by (simp add: drop_bit_eq_div zdiv_mono1)

lemma level_bins_mem:
  assumes "0 \<le> rbeg" "rbeg \<le> rend" "rend \<le> MAX_RNG"
  shows "start + drop_bit shift rbeg \<in> set (level_bins rbeg rend (start, shift))"
proof -
  have a: "drop_bit shift rbeg \<le> drop_bit shift rend" using assms drop_bit_mono_int by blast
  have b: "drop_bit shift rbeg \<le> drop_bit shift MAX_RNG" using assms drop_bit_mono_int[of rbeg MAX_RNG] by simp
  have c: "rbeg = 0 \<Longrightarrow> drop_bit shift rbeg = 0" by simp
  show ?thesis using a b c assms(1) by (auto simp: level_bins_def Let_def)
qed

lemma zero_mem:
  assumes "0 \<le> rbeg" "rbeg \<le> rend" "rend \<le> MAX_RNG"
  shows "0 \<in> set (level_bins rbeg rend (0, 29))"
proof -
  have "drop_bit 29 rbeg = 0" using assms by (simp add: drop_bit_eq_div MAX_RNG_def)
  with level_bins_mem[OF assms, of 0 29] show ?thesis by simp
qed

lemma reg2bin_cases:
  "reg2bin beg en = 4681 + drop_bit 14 beg \<or> reg2bin beg en = 585 + drop_bit 17 beg
   \<or> reg2bin beg en = 73 + drop_bit 20 beg \<or> reg2bin beg en = 9 + drop_bit 23 beg
   \<or> reg2bin beg en = 1 + drop_bit 26 beg \<or> reg2bin beg en = 0"
  by (simp add: reg2bin_def)


text \<open>
  Claim C3: for every region \<open>[beg, end)\<close> with \<open>0 \<le> beg < end \<le> 2^29\<close>, \<open>reg2bin\<close>
  returns a bin of the six-level scheme that contains the region, no bin containing the
  region lies at a finer level, the bin is the only one of its level that contains the
  region, and the result is 0 when no bin other than bin 0 contains the region.
\<close>

theorem C3_reg2bin_smallest_containing_bin:
  assumes "0 \<le> beg" "beg < en" "en \<le> 2 ^ 29"
  shows "is_bin (reg2bin beg en) \<and> bin_contains (reg2bin beg en) beg en
     \<and> (\<forall>b. is_bin b \<and> bin_contains b beg en \<longrightarrow>
            bin_level b \<le> bin_level (reg2bin beg en)
            \<and> (bin_level b = bin_level (reg2bin beg en) \<longrightarrow> b = reg2bin beg en))
     \<and> ((\<forall>b. is_bin b \<and> b \<noteq> 0 \<longrightarrow> \<not> bin_contains b beg en) \<longrightarrow> reg2bin beg en = 0)"
proof -
  from reg2bin_first_match [OF assms] obtain l where l: "l \<le> 5"
    and r: "reg2bin beg en = level_base l + beg div level_size l"
    and w: "same_window l beg en"
    and f: "\<forall>l'\<le>5. l < l' \<longrightarrow> \<not> same_window l' beg en" by blast
  have b29: "beg < 2 ^ 29" using assms by simp
  note k = window_index_bound [OF assms(1) b29 l]
  have lev: "bin_level (reg2bin beg en) = l" and isb: "is_bin (reg2bin beg en)"
    using bin_level_base [OF l k] r by simp_all
  have cont: "bin_contains (reg2bin beg en) beg en"
    using window_fits [OF w] lev r
    by (simp add: bin_contains_def bin_hi_def bin_lo_def algebra_simps)
  have fin: "bin_level b \<le> l \<and> (bin_level b = l \<longrightarrow> b = reg2bin beg en)"
    if "is_bin b" "bin_contains b beg en" for b
  proof -
    note c = contained_window [OF that assms(2)]
    have "bin_level b \<le> l" using c(1) f bin_level_le5 [of b] by (meson not_le)
    moreover have "b = reg2bin beg en" if "bin_level b = l" using c(2) that r by simp
    ultimately show ?thesis by blast
  qed
  have zero: "reg2bin beg en = 0"
    if "\<forall>b. is_bin b \<and> b \<noteq> 0 \<longrightarrow> \<not> bin_contains b beg en"
    using that isb cont by blast
  show ?thesis using isb cont fin lev zero by blast
qed

theorem C3_witness:
  "(0::int) \<le> 70000 \<and> (70000::int) < 140000 \<and> (140000::int) \<le> 2 ^ 29
   \<and> reg2bin 70000 140000 = 73
   \<and> is_bin (reg2bin 70000 140000) \<and> bin_contains (reg2bin 70000 140000) 70000 140000
   \<and> is_bin 9 \<and> bin_contains 9 70000 140000
   \<and> bin_level 9 \<le> bin_level (reg2bin 70000 140000)"
proof -
  have h: "(0::int) \<le> 70000" "(70000::int) < 140000" "(140000::int) \<le> 2 ^ 29" by simp_all
  have nine: "is_bin 9" "bin_contains 9 70000 140000"
    by (simp_all add: is_bin_def bin_contains_def bin_lo_def bin_hi_def bin_level_def
          level_base_def level_size_def)
  have v: "reg2bin 70000 140000 = 73" by (simp add: reg2bin_def)
  from C3_reg2bin_smallest_containing_bin [OF h] nine
  have "is_bin (reg2bin 70000 140000)" "bin_contains (reg2bin 70000 140000) 70000 140000"
    "bin_level 9 \<le> bin_level (reg2bin 70000 140000)" by blast+
  with h nine v show ?thesis by simp
qed

text \<open>
  Claim C4: for every region with \<open>0 \<le> beg < end \<le> 2^29 - 1\<close>, the generator of
  \<open>reg2bins(beg, end)\<close> runs to its end without raising, and the list of the bin ids
  it yields contains \<open>reg2bin(beg, end)\<close>.
\<close>

theorem C4_reg2bin_in_reg2bins:
  assumes "0 \<le> beg" "beg < en" "en \<le> 2 ^ 29 - 1"
  shows "\<exists>g ids. reg2bins beg en = Inr g \<and> consume g = (ids, None) \<and> reg2bin beg en \<in> set ids"
proof -
  have v: "0 \<le> beg" "beg \<le> en" "en \<le> MAX_RNG" using assms by (simp_all add: MAX_RNG_def)
  have "reg2bin beg en \<in> set (concat (map (level_bins beg en)
          (zip BIN_ID_STARTS [29, 26, 23, 20, 17, 14])))"
    using reg2bin_cases [of beg en] level_bins_mem [OF v] zero_mem [OF v]
    by (auto simp: BIN_ID_STARTS_def)
  then show ?thesis using v by (simp add: reg2bins_def reg2bins_body_def)
qed

theorem C4_witness:
  "(0::int) \<le> 16384 \<and> (16384::int) < 100000 \<and> (100000::int) \<le> 2 ^ 29 - 1
   \<and> reg2bin 16384 100000 = 585
   \<and> (\<exists>g ids. reg2bins 16384 100000 = Inr g \<and> consume g = (ids, None)
         \<and> reg2bin 16384 100000 \<in> set ids)"
proof -
  have h: "(0::int) \<le> 16384" "(16384::int) < 100000" "(100000::int) \<le> 2 ^ 29 - 1" by simp_all
  have v: "reg2bin 16384 100000 = 585" by (simp add: reg2bin_def)
  show ?thesis using h v C4_reg2bin_in_reg2bins [OF h] by simp
qed

text \<open>
  Claim C6 (as stated): the call \<open>reg2bins(-1, 0)\<close> itself fails with the exception of
  the assertion.  It does not: the call returns a generator.
\<close>

theorem C6_call_counterexample:
  "\<not> (reg2bins (- 1) 0 = Inl AssertionError)"
  by (simp add: reg2bins_def)

text \<open>
  Claim C6 (amended): for \<open>rbeg = -1\<close>, for \<open>rbeg > rend\<close> and for \<open>rend = 2^29\<close> the
  call \<open>reg2bins(rbeg, rend)\<close> returns a generator without raising, and consuming that
  generator raises the exception of the assertion with no bin id yielded before it: the
  outcome is the empty list of ids, ended by the exception.  \<open>reg2bins\<close> reads and
  writes no state.
\<close>

theorem C6_reg2bins_fails_when_consumed:
  assumes "rbeg = - 1 \<or> rbeg > rend \<or> rend = 2 ^ 29"
  shows "\<exists>g. reg2bins rbeg rend = Inr g \<and> consume g = ([], Some AssertionError)"
  using assms by (auto simp: reg2bins_def reg2bins_body_def MAX_RNG_def)

theorem C6_witness:
  "(\<exists>g. reg2bins (- 1) 10 = Inr g \<and> consume g = ([], Some AssertionError))
   \<and> (\<exists>g. reg2bins 5 3 = Inr g \<and> consume g = ([], Some AssertionError))
   \<and> (\<exists>g. reg2bins 0 (2 ^ 29) = Inr g \<and> consume g = ([], Some AssertionError))"
  using C6_reg2bins_fails_when_consumed [of "- 1" 10]
    C6_reg2bins_fails_when_consumed [of 5 3]
    C6_reg2bins_fails_when_consumed [of 0 "2 ^ 29"]
  by simp

lemma reg2bin_0_100: "reg2bin 0 100 = 4681"
  by (simp add: reg2bin_def)

lemma reg2bin_16000_16100: "reg2bin 16000 16100 = 4681"
  by (simp add: reg2bin_def)

text \<open>
  Claim C8 (as stated): \<open>reg2bin(0, 100)\<close> and \<open>reg2bin(16000, 16100)\<close> are two distinct
  bin ids, both within \<open>[4681, 4681 + 2^18)\<close>.  The two regions lie in the same 16 Kbp
  window \<open>[0, 16384)\<close>, so the two ids are equal and the claim as stated is false.
\<close>

theorem C8_distinct_counterexample:
  "\<not> (reg2bin 0 100 \<noteq> reg2bin 16000 16100
      \<and> 4681 \<le> reg2bin 0 100 \<and> reg2bin 0 100 < 4681 + 2 ^ 18
      \<and> 4681 \<le> reg2bin 16000 16100 \<and> reg2bin 16000 16100 < 4681 + 2 ^ 18)"
  by (simp add: reg2bin_0_100 reg2bin_16000_16100)

text \<open>
  Claim C8 (amended): \<open>reg2bin(0, 100)\<close> and \<open>reg2bin(16000, 16100)\<close> return the same
  bin id, 4681, the first bin of the finest level, which lies within
  \<open>[4681, 4681 + 2^18)\<close>.
\<close>

theorem C8_same_finest_bin:
  "reg2bin 0 100 = 4681 \<and> reg2bin 16000 16100 = 4681
   \<and> 4681 \<le> reg2bin 0 100 \<and> reg2bin 0 100 < 4681 + 2 ^ 18
   \<and> 4681 \<le> reg2bin 16000 16100 \<and> reg2bin 16000 16100 < 4681 + 2 ^ 18"
  by (simp add: reg2bin_0_100 reg2bin_16000_16100)

section \<open>Properties of the parser\<close>

subsection \<open>Evaluation of the decoders on concrete files\<close>

lemma get_chunks_loop_numeral [simp]:
  "get_chunks_loop (numeral v) f =
     bind_err (unpack_2Q f) (\<lambda>((b, e), f').
     bind_err (get_chunks_loop (pred_numeral v) f') (\<lambda>(chunks, f'').
     Inr (Chunk b e # chunks, f'')))"
  by (simp add: numeral_eq_Suc)

lemma get_bins_loop_numeral:
  "get_bins_loop (numeral v) ref_id idx dict s =
     get_bins_loop (Suc (pred_numeral v)) ref_id idx dict s"
  by (simp only: numeral_eq_Suc)

lemmas decode_simps =
  file_at_def bai_at_def io_seek_def io_tell_def io_read_def read_exact_def le_sint32_def
  unpack_l_def unpack_Q_def unpack_2Q_def unpack_4Q_def unpack_Ii_def
  get_bins_def get_chunks_def get_ints_def UNMAP_BIN_def get_bins_loop_numeral Let_def

lemma get_ref_minimal_index:
  "get_ref (Some 0) False (bai_at minimal_index 16 Map.empty [0 \<mapsto> RefIdx 8 16 0]) =
     Inr (IsRef (Ref (Some Map.empty) (Some [])),
          bai_at minimal_index 16 Map.empty [0 \<mapsto> RefIdx 8 16 0])"
  by (simp add: get_ref_def minimal_index_def decode_simps)

lemma index_pass_minimal_index:
  "get_ref (Some 0) True (bai_at minimal_index 8 Map.empty Map.empty) =
     Inr (IsRefIdx (RefIdx 8 16 0), bai_at minimal_index 16 Map.empty Map.empty)"
  by (simp add: get_ref_def minimal_index_def decode_simps)

lemma Bai_init_never_returns: "Bai_init fs filename \<noteq> Inr b"
  by (simp add: Bai_init_def split: option.splits)

text \<open>
  Claim C1: opening the minimal index (magic, \<open>n_ref = 1\<close>, \<open>n_bin = 0\<close>,
  \<open>n_intv = 0\<close>) succeeds, leaves \<open>n_refs = 1\<close>, and the full-mode parse of
  reference 0 gives empty bins and intervals.  The constructor as written does not return
  on this file: it raises \<open>NameError\<close> at the name \<open>serf\<close>.  (The two parses are as
  claimed: the index-only pass from offset 8 gives the catalogue entry \<open>(8, 16, 0)\<close>,
  \<open>index_pass_minimal_index\<close>, and on an object with that entry the full mode returns
  an empty dictionary and an empty list, \<open>get_ref_minimal_index\<close>.)
\<close>

theorem C1_open_minimal_index_raises_NameError:
  "Bai_init [''minimal.bam.bai'' \<mapsto> minimal_index] ''minimal.bam.bai'' = Inl NameError"
  by (simp add: Bai_init_def)

subsection \<open>The loop of \<open>get_bins\<close>\<close>


lemma bind_err_assoc: "bind_err (bind_err m f) g = bind_err m (\<lambda>x. bind_err (f x) g)"
  by (cases m) simp_all

lemma bind_err_if:
  "bind_err (if c then a else b) g = (if c then bind_err a g else bind_err b g)"
  by simp

lemma get_bins_loop_add:
  "get_bins_loop (j + k) ref_id idx dict s =
     bind_err (get_bins_loop j ref_id idx dict s) (\<lambda>(dict', s'). get_bins_loop k ref_id idx dict' s')"
proof (induction j arbitrary: dict s idx)
  case 0
  show ?case by simp
next
  case (Suc j)
  show ?case
    by (cases dict) (simp_all add: Suc.IH bind_err_assoc bind_err_if split_def cong: if_cong)
qed


lemma reserved_record_idx:
  assumes "unpack_Ii (io s) = Inr ((UNMAP_BIN, n_chunks), f)" "n_chunks \<noteq> 2"
  shows "get_bins_loop (Suc k) ref_id True dict s = Inl AssertionError"
  using assms by simp


lemma split_count:
  assumes "0 \<le> j" "j < n"
  shows "nat n = nat j + Suc (nat (n - j - 1))"
  using assms by simp




text \<open>
  The index-only pass over \<open>reserved_bin_index\<close> from offset 8 accepts the file, returns
  the catalogue entry \<open>(8, 56, 1)\<close> and stores the four values of bin 37450 in
  \<open>unmapped\<close> under the reference id.
\<close>

lemma index_pass_reserved_bin:
  "get_ref (Some 0) True (bai_at reserved_bin_index 8 Map.empty Map.empty) =
     Inr (IsRefIdx (RefIdx 8 56 1),
          bai_at reserved_bin_index 56 [Some 0 \<mapsto> Unmapped 1 2 3 4] Map.empty)"
  by (simp add: get_ref_def reserved_bin_index_def decode_simps)





text \<open>
  In the index-only mode, whenever \<open>get_bins\<close>, called for \<open>n\<close> bins, meets a record
  with the id 37450 and a chunk count other than 2 (after \<open>j < n\<close> bins have been
  passed), it fails with the exception of the assertion.
\<close>

lemma index_mode_reserved_bin_assertion:
  assumes "0 \<le> j" "j < n"
    and "get_bins j ref_id True s = Inr (dict1, s1)"
    and "unpack_Ii (io s1) = Inr ((UNMAP_BIN, n_chunks), f)"
    and "n_chunks \<noteq> 2"
  shows "get_bins n ref_id True s = Inl AssertionError"
proof -
  have "get_bins n ref_id True s =
      get_bins_loop (nat j + Suc (nat (n - j - 1))) ref_id True None s"
    by (simp only: get_bins_def split_count [OF assms(1,2)] if_True)
  also have "\<dots> = bind_err (get_bins_loop (nat j) ref_id True None s)
        (\<lambda>(dict', s'). get_bins_loop (Suc (nat (n - j - 1))) ref_id True dict' s')"
    by (rule get_bins_loop_add)
  also have "\<dots> = get_bins_loop (Suc (nat (n - j - 1))) ref_id True dict1 s1"
    using assms(3) by (simp add: get_bins_def del: get_bins_loop.simps)
  also have "\<dots> = Inl AssertionError"
    by (rule reserved_record_idx [OF assms(4,5)])
  finally show ?thesis .
qed

text \<open>
  Claim C7: a record of bin 37450 whose chunk count is not 2 makes the parse fail, in
  the index-only and in the full mode; the docstring of \<open>get_bins\<close> says the same
  (it raises \<open>AssertionError\<close> if bin 37450 does not contain 2 chunks exactly).  With the
  file head at the record of \<open>one_chunk_reserved_index\<close> (id 37450, one chunk),
  \<open>get_bins\<close> raises in the index-only mode, and in the full mode it decodes the
  record and returns.
\<close>

theorem C7_full_mode_accepts_reserved_bin_with_one_chunk:
  "unpack_Ii (io (bai_at one_chunk_reserved_index 12 Map.empty Map.empty)) =
     Inr ((UNMAP_BIN, 1), file_at one_chunk_reserved_index 20)
   \<and> get_bins 1 (Some 0) True (bai_at one_chunk_reserved_index 12 Map.empty Map.empty) =
       Inl AssertionError
   \<and> get_bins 1 (Some 0) False (bai_at one_chunk_reserved_index 12 Map.empty Map.empty) =
       Inr (Some [UNMAP_BIN \<mapsto> [Chunk 1 2]],
            (bai_at one_chunk_reserved_index 12 Map.empty Map.empty)
              \<lparr>io := file_at one_chunk_reserved_index 36\<rparr>)"
  by (simp add: one_chunk_reserved_index_def decode_simps)

subsection \<open>\<open>seek\<close>\<close>

text \<open>
  Claim C9: \<open>seek\<close> with the offset \<open>None\<close>, or with an offset that is not an integer,
  fails with the error the method raises for an invalid offset (\<open>ValueError\<close>, by its
  docstring and its two \<open>raise\<close> statements).  As written the method fails in both
  cases, with \<open>TypeError\<close>, raised by \<open>isinstance\<close> itself; neither \<open>raise\<close> statement
  is reached.
\<close>

theorem C9_seek_non_integer_raises_TypeError:
  "seek PyNone whence s = Inl TypeError \<and> seek (PyStr x) whence s = Inl TypeError"
  by (simp add: seek_def isinstance_int_None_def)

section \<open>Properties of \<open>query\<close>\<close>

lemma index_pass_adjacent_chunks:
  "get_ref (Some 0) True (bai_at adjacent_chunks_index 8 Map.empty Map.empty) =
     Inr (IsRefIdx (RefIdx 8 64 1), bai_at adjacent_chunks_index 64 Map.empty Map.empty)"
  by (simp add: get_ref_def adjacent_chunks_index_def decode_simps)


lemma query_raises_TypeError:
  assumes "get_ref (Some ref_id) False s = Inr (current_ref, s')"
  shows "consume_query (QueryGen ref_id start stop) s = ([], Some TypeError)"
  using assms by simp



end
